theory Spec2Isabelle
  imports Complex_Main
begin

section \<open>JavaScript numbers\<close>

text \<open>
  Every \<^verbatim>\<open>number\<close> of the page script is an IEEE 754 double.  A finite double is
  modelled by the real number it stands for, and the two infinities and NaN are values
  of their own, because the script divides without a guard and JavaScript answers a
  division by zero with \<^verbatim>\<open>Infinity\<close> instead of raising.  The only zero that reaches a
  division is the result of subtracting a clock reading from an equal one, which is
  \<^verbatim>\<open>+0\<close>, so zero is taken to be positive.
\<close>

datatype jsnum = Num real | PosInf | NegInf | NaN

subsection \<open>Rounding to the nearest double\<close>

text \<open>
  \<open>to_double r\<close> is the double nearest to the real \<open>r\<close>, ties going to the even
  significand: with \<open>2 ^ e \<le> \<bar>r\<bar> < 2 ^ (e + 1)\<close> (and \<open>e\<close> no smaller than -1022, where the
  subnormal doubles begin) the doubles around \<open>r\<close> are the multiples of \<open>2 ^ (e - 52)\<close>.
  A result of magnitude \<open>2 ^ 1024\<close> or more overflows to an infinity.
\<close>

definition pow2 :: "int \<Rightarrow> real" where
  "pow2 e = (if 0 \<le> e then 2 ^ nat e else 1 / 2 ^ nat (- e))"

function exp_up :: "real \<Rightarrow> int \<Rightarrow> int" where
  "exp_up a e = (if e < 1023 \<and> pow2 (e + 1) \<le> a then exp_up a (e + 1) else e)"
  by pat_completeness auto
termination
  by (relation "measure (\<lambda>(a, e). nat (1023 - e))") auto

function exp_down :: "real \<Rightarrow> int \<Rightarrow> int" where
  "exp_down a e = (if - 1022 < e \<and> a < pow2 e then exp_down a (e - 1) else e)"
  by pat_completeness auto
termination
  by (relation "measure (\<lambda>(a, e). nat (e + 1022))") auto

declare exp_up.simps [simp del] exp_down.simps [simp del]

definition exponent :: "real \<Rightarrow> int" where
  "exponent a = (if 1 \<le> a then exp_up a 0 else exp_down a 0)"

definition nearest_even :: "real \<Rightarrow> int \<Rightarrow> int" where
  "nearest_even y f =
     (if y - of_int f < 1 / 2 then f
      else if 1 / 2 < y - of_int f then f + 1
      else if even f then f else f + 1)"

definition round_half_even :: "real \<Rightarrow> int" where
  "round_half_even y = nearest_even y \<lfloor>y\<rfloor>"

definition quantize :: "real \<Rightarrow> real \<Rightarrow> real" where
  "quantize a q = of_int (round_half_even (a / q)) * q"

definition overflow_or :: "bool \<Rightarrow> real \<Rightarrow> jsnum" where
  "overflow_or positive v =
     (if pow2 1024 \<le> v then (if positive then PosInf else NegInf)
      else Num (if positive then v else - v))"

definition to_double :: "real \<Rightarrow> jsnum" where
  "to_double r =
     (if r = 0 then Num 0
      else overflow_or (0 < r) (quantize \<bar>r\<bar> (pow2 (exponent \<bar>r\<bar> - 52))))"

text \<open>A decimal literal of the script denotes the double nearest to it.\<close>

definition lit :: "real \<Rightarrow> jsnum" where
  "lit r = to_double r"

subsection \<open>Arithmetic and comparison\<close>

text \<open>
  Sums, products and quotients of finite doubles are the exact results rounded;
  negation, absolute value and comparison are exact.
\<close>

fun js_neg :: "jsnum \<Rightarrow> jsnum" where
  "js_neg (Num a) = Num (- a)"
| "js_neg PosInf = NegInf"
| "js_neg NegInf = PosInf"
| "js_neg NaN = NaN"

fun js_add :: "jsnum \<Rightarrow> jsnum \<Rightarrow> jsnum" where
  "js_add (Num a) (Num b) = to_double (a + b)"
| "js_add NaN y = NaN"
| "js_add x NaN = NaN"
| "js_add PosInf NegInf = NaN"
| "js_add NegInf PosInf = NaN"
| "js_add PosInf y = PosInf"
| "js_add x PosInf = PosInf"
| "js_add NegInf y = NegInf"
| "js_add x NegInf = NegInf"

definition js_sub :: "jsnum \<Rightarrow> jsnum \<Rightarrow> jsnum" where
  "js_sub x y = js_add x (js_neg y)"

definition inf_of_sign :: "bool \<Rightarrow> jsnum" where
  "inf_of_sign positive = (if positive then PosInf else NegInf)"

fun js_mul :: "jsnum \<Rightarrow> jsnum \<Rightarrow> jsnum" where
  "js_mul (Num a) (Num b) = to_double (a * b)"
| "js_mul NaN y = NaN"
| "js_mul x NaN = NaN"
| "js_mul PosInf (Num b) = (if b = 0 then NaN else inf_of_sign (0 < b))"
| "js_mul NegInf (Num b) = (if b = 0 then NaN else inf_of_sign (b < 0))"
| "js_mul (Num a) PosInf = (if a = 0 then NaN else inf_of_sign (0 < a))"
| "js_mul (Num a) NegInf = (if a = 0 then NaN else inf_of_sign (a < 0))"
| "js_mul PosInf PosInf = PosInf"
| "js_mul NegInf NegInf = PosInf"
| "js_mul PosInf NegInf = NegInf"
| "js_mul NegInf PosInf = NegInf"

fun js_div :: "jsnum \<Rightarrow> jsnum \<Rightarrow> jsnum" where
  "js_div (Num a) (Num b) =
     (if b \<noteq> 0 then to_double (a / b)
      else if 0 < a then PosInf
      else if a < 0 then NegInf
      else NaN)"
| "js_div NaN y = NaN"
| "js_div x NaN = NaN"
| "js_div (Num a) PosInf = Num 0"
| "js_div (Num a) NegInf = Num 0"
| "js_div PosInf (Num b) = inf_of_sign (0 \<le> b)"
| "js_div NegInf (Num b) = inf_of_sign (b < 0)"
| "js_div PosInf y = NaN"
| "js_div NegInf y = NaN"

text \<open>The comparison \<^verbatim>\<open>x < y\<close>; every comparison with NaN is false.\<close>

fun js_lt :: "jsnum \<Rightarrow> jsnum \<Rightarrow> bool" where
  "js_lt (Num a) (Num b) = (a < b)"
| "js_lt NaN y = False"
| "js_lt x NaN = False"
| "js_lt PosInf y = False"
| "js_lt x NegInf = False"
| "js_lt NegInf y = True"
| "js_lt x PosInf = True"

definition js_gt :: "jsnum \<Rightarrow> jsnum \<Rightarrow> bool" where
  "js_gt x y = js_lt y x"

definition js_ge :: "jsnum \<Rightarrow> jsnum \<Rightarrow> bool" where
  "js_ge x y = (x \<noteq> NaN \<and> y \<noteq> NaN \<and> \<not> js_lt x y)"

definition js_le :: "jsnum \<Rightarrow> jsnum \<Rightarrow> bool" where
  "js_le x y = js_ge y x"

definition Math_min :: "jsnum \<Rightarrow> jsnum \<Rightarrow> jsnum" where
  "Math_min x y = (if x = NaN \<or> y = NaN then NaN else if js_lt y x then y else x)"

definition Math_max :: "jsnum \<Rightarrow> jsnum \<Rightarrow> jsnum" where
  "Math_max x y = (if x = NaN \<or> y = NaN then NaN else if js_lt x y then y else x)"

fun Math_abs :: "jsnum \<Rightarrow> jsnum" where
  "Math_abs (Num a) = Num \<bar>a\<bar>"
| "Math_abs PosInf = PosInf"
| "Math_abs NegInf = PosInf"
| "Math_abs NaN = NaN"

text \<open>
  \<^verbatim>\<open>Math.round\<close> answers the integer nearest to its argument, a half going towards plus
  infinity; the integers met here are doubles.
\<close>

fun Math_round :: "jsnum \<Rightarrow> jsnum" where
  "Math_round (Num a) = Num (of_int \<lfloor>a + 1 / 2\<rfloor>)"
| "Math_round x = x"

section \<open>The track catalog and the track selector\<close>

record MusicTrack =
  minBPM :: jsnum
  maxBPM :: jsnum
  name :: string
  artist :: string
  audioFile :: string
  originalBPM :: jsnum

definition musicTracks :: "MusicTrack list" where
  "musicTracks =
    [\<lparr>minBPM = Num 0, maxBPM = Num 90, name = ''Relaxing Ambient'', artist = ''Soundscape'',
      audioFile = ''/songs/relaxing-ambient.mp3'', originalBPM = Num 75\<rparr>,
     \<lparr>minBPM = Num 90, maxBPM = Num 110, name = ''Chill Vibes'', artist = ''Lo-Fi Beats'',
      audioFile = ''/songs/chill-vibes.mp3'', originalBPM = Num 95\<rparr>,
     \<lparr>minBPM = Num 110, maxBPM = Num 130, name = ''Walking Rhythm'', artist = ''Indie Pop'',
      audioFile = ''/songs/walking-rhythm.mp3'', originalBPM = Num 120\<rparr>,
     \<lparr>minBPM = Num 130, maxBPM = Num 150, name = ''Energy Boost'', artist = ''Pop Hits'',
      audioFile = ''/songs/energy-boost.mp3'', originalBPM = Num 140\<rparr>,
     \<lparr>minBPM = Num 150, maxBPM = Num 200, name = ''Power Walk'', artist = ''Electronic Dance'',
      audioFile = ''/songs/power-walk.mp3'', originalBPM = Num 175\<rparr>]"

text \<open>The callback handed to \<^verbatim>\<open>find\<close>: \<^verbatim>\<open>bpm >= track.minBPM && bpm < track.maxBPM\<close>.\<close>

definition inRange :: "jsnum \<Rightarrow> MusicTrack \<Rightarrow> bool" where
  "inRange bpm track = (js_ge bpm (minBPM track) \<and> js_lt bpm (maxBPM track))"

text \<open>
  \<^verbatim>\<open>musicTracks.find(...) || musicTracks[0]\<close>: \<^verbatim>\<open>find\<close> answers \<^verbatim>\<open>undefined\<close> when no
  track matches, and the catalog is not empty.
\<close>

definition getMatchingTrack :: "jsnum \<Rightarrow> MusicTrack" where
  "getMatchingTrack bpm =
     (case find (inRange bpm) musicTracks of
        Some track \<Rightarrow> track
      | None \<Rightarrow> musicTracks ! 0)"

section \<open>The page state\<close>

text \<open>
  The buffered source node of the Web Audio path and the streaming element of the
  HTML5 path, with the properties the script reads or writes.
\<close>

record BufferSource =
  bs_buffer :: string
  bs_loop :: bool
  bs_playbackRate :: jsnum
  bs_playing :: bool
  bs_connected :: bool

record HTMLAudio =
  el_src :: string
  el_loop :: bool
  el_volume :: jsnum
  el_playbackRate :: jsnum
  el_paused :: bool
  el_currentTime :: jsnum

text \<open>
  The module-level variables.  \<^verbatim>\<open>steps\<close> only counts up from 0 and \<^verbatim>\<open>lastStepTime\<close>
  only holds 0 or a reading of \<^verbatim>\<open>Date.now()\<close>, an integer number of milliseconds.
  \<^verbatim>\<open>audioContext\<close> and \<^verbatim>\<open>gainNode\<close> record whether the variable is non-null.

  Two more components stand for what the script started and holds no variable for:
  \<open>inflight\<close>, the tracks of the calls of \<^verbatim>\<open>loadAndPlayAudio\<close> that wait for their
  fetch and decoding, and \<open>strayPlaying\<close>, the number of buffered sources that still
  play after \<^verbatim>\<open>audioSource\<close> was given another node.
\<close>

record state =
  permissionGranted :: bool
  isMonitoring :: bool
  steps :: nat
  lastStepTime :: int
  isPlaying :: bool
  currentBPM :: jsnum
  speed :: jsnum
  permissionStatus :: string
  isDemoMode :: bool
  currentAudio :: "HTMLAudio option"
  audioContext :: bool
  audioSource :: "BufferSource option"
  gainNode :: bool
  isLoading :: bool
  inflight :: "MusicTrack list"
  strayPlaying :: nat

definition initial :: state where
  "initial =
    \<lparr>permissionGranted = False, isMonitoring = False, steps = 0, lastStepTime = 0,
     isPlaying = False, currentBPM = Num 0, speed = Num 0,
     permissionStatus = ''Waiting for permission'', isDemoMode = False,
     currentAudio = None, audioContext = False, audioSource = None, gainNode = False,
     isLoading = False, inflight = [], strayPlaying = 0\<rparr>"

text \<open>
  What the platform answers to one load: whether the audio context can be created,
  whether the fetch and the decoding of the file succeed, whether the \<^verbatim>\<open>Audio\<close>
  constructor returns and whether the promise of \<^verbatim>\<open>play()\<close> is fulfilled.
\<close>

record world =
  initOk :: bool
  fetchOk :: bool
  decodeOk :: bool
  audioCtorOk :: bool
  playOk :: bool

section \<open>The playback controller\<close>

text \<open>
  The expression \<^verbatim>\<open>Math.max(0.5, Math.min(2.0, bpm / track.originalBPM))\<close>, which
  \<^verbatim>\<open>loadAndPlayAudio\<close>, \<^verbatim>\<open>playWithHTMLAudio\<close> and \<^verbatim>\<open>adjustPlaybackSpeed\<close> each write out.
\<close>

definition computeRate :: "jsnum \<Rightarrow> jsnum \<Rightarrow> jsnum" where
  "computeRate bpm original =
     Math_max (Num (1 / 2)) (Math_min (Num 2) (js_div bpm original))"


definition initializeAudioContext :: "world \<Rightarrow> state \<Rightarrow> state" where
  "initializeAudioContext w s =
     (if initOk w then s\<lparr>audioContext := True, gainNode := True\<rparr> else s)"

definition playWithHTMLAudio :: "world \<Rightarrow> MusicTrack \<Rightarrow> state \<Rightarrow> state" where
  "playWithHTMLAudio w track s =
     (let s1 = (case currentAudio s of
                  Some el \<Rightarrow> s\<lparr>currentAudio := Some (el\<lparr>el_paused := True, el_currentTime := Num 0\<rparr>)\<rparr>
                | None \<Rightarrow> s)
      in if \<not> audioCtorOk w then s1
         else s1\<lparr>currentAudio := Some
                \<lparr>el_src = audioFile track, el_loop = True, el_volume = lit (7 / 10),
                 el_playbackRate = computeRate (currentBPM s1) (originalBPM track),
                 el_paused = (\<not> playOk w), el_currentTime = Num 0\<rparr>\<rparr>)"

text \<open>
  \<^verbatim>\<open>loadAndPlayAudio\<close> suspends at \<^verbatim>\<open>await fetch(...)\<close>.  \<open>loadBegin\<close> is what it does before:
  the audio context is created if there is none, \<^verbatim>\<open>isLoading\<close> is set and the current
  source is stopped and disconnected (the variable keeps the node).  These statements
  run before any other handler can: the call is the last statement of each caller, and
  the \<^verbatim>\<open>await\<close> of \<^verbatim>\<open>initializeAudioContext\<close> resumes before the next event is handled.
\<close>

definition loadBegin :: "world \<Rightarrow> MusicTrack \<Rightarrow> state \<Rightarrow> state" where
  "loadBegin w track s =
     (let s1 = (if \<not> audioContext s \<or> \<not> gainNode s then initializeAudioContext w s else s);
          s2 = s1\<lparr>isLoading := True\<rparr>
      in case audioSource s2 of
           Some node \<Rightarrow> s2\<lparr>audioSource := Some (node\<lparr>bs_playing := False, bs_connected := False\<rparr>)\<rparr>
         | None \<Rightarrow> s2)"

text \<open>
  \<open>loadComplete\<close> is what \<^verbatim>\<open>loadAndPlayAudio\<close> does once the fetch and the decoding have
  settled, in the state of that moment: a new source is created, tuned to the BPM of
  that moment and started, or the \<^verbatim>\<open>catch\<close> block falls back to the element.  The new
  source replaces whatever node \<^verbatim>\<open>audioSource\<close> holds; a node that is still playing then
  goes on playing, out of the script's reach.
\<close>

definition loadComplete :: "world \<Rightarrow> MusicTrack \<Rightarrow> state \<Rightarrow> state" where
  "loadComplete w track s =
     (if fetchOk w \<and> audioContext s \<and> decodeOk w then
        s\<lparr>audioSource := Some
             \<lparr>bs_buffer = audioFile track, bs_loop = True,
              bs_playbackRate = computeRate (currentBPM s) (originalBPM track),
              bs_playing = True, bs_connected = True\<rparr>,
          strayPlaying :=
            (case audioSource s of
               Some node \<Rightarrow> if bs_playing node then strayPlaying s + 1 else strayPlaying s
             | None \<Rightarrow> strayPlaying s),
          isLoading := False\<rparr>
      else playWithHTMLAudio w track (s\<lparr>isLoading := False\<rparr>))"

text \<open>The whole of \<^verbatim>\<open>loadAndPlayAudio\<close>, when nothing else runs before the load settles.\<close>

definition loadAndPlayAudio :: "world \<Rightarrow> MusicTrack \<Rightarrow> state \<Rightarrow> state" where
  "loadAndPlayAudio w track s = loadComplete w track (loadBegin w track s)"

text \<open>
  \<^verbatim>\<open>loadAndPlayAudio\<close> as a handler leaves it behind: begun, and waiting in \<open>inflight\<close>.
\<close>

definition loadSuspended :: "world \<Rightarrow> MusicTrack \<Rightarrow> state \<Rightarrow> state" where
  "loadSuspended w track s = (loadBegin w track s)\<lparr>inflight := inflight s @ [track]\<rparr>"

definition stopAudio :: "state \<Rightarrow> state" where
  "stopAudio s =
     (let s1 = (case audioSource s of Some node \<Rightarrow> s\<lparr>audioSource := None\<rparr> | None \<Rightarrow> s)
      in case currentAudio s1 of Some el \<Rightarrow> s1\<lparr>currentAudio := None\<rparr> | None \<Rightarrow> s1)"



definition adjustPlaybackSpeed :: "jsnum \<Rightarrow> state \<Rightarrow> state" where
  "adjustPlaybackSpeed newBPM s =
     (let currentTrack = getMatchingTrack newBPM;
          clampedRate = computeRate newBPM (originalBPM currentTrack)
      in case audioSource s of
           Some node \<Rightarrow>
             if audioContext s then s\<lparr>audioSource := Some (node\<lparr>bs_playbackRate := clampedRate\<rparr>)\<rparr>
             else (case currentAudio s of
                     Some el \<Rightarrow> s\<lparr>currentAudio := Some (el\<lparr>el_playbackRate := clampedRate\<rparr>)\<rparr>
                   | None \<Rightarrow> s)
         | None \<Rightarrow>
             (case currentAudio s of
                Some el \<Rightarrow> s\<lparr>currentAudio := Some (el\<lparr>el_playbackRate := clampedRate\<rparr>)\<rparr>
              | None \<Rightarrow> s))"

text \<open>
  The stop branch of \<^verbatim>\<open>toggleMusic\<close>: \<^verbatim>\<open>stopAudio(); isPlaying = false\<close>.
\<close>

definition stopPlayback :: "state \<Rightarrow> state" where
  "stopPlayback s = (stopAudio s)\<lparr>isPlaying := False\<rparr>"

text \<open>
  The functions that call \<^verbatim>\<open>loadAndPlayAudio\<close> are written once, over what that call
  does before they return: \<open>loadAndPlayAudio w\<close> when the load settles at once, and
  \<open>loadSuspended w\<close> when it is left waiting.
\<close>

definition toggleMusic_with :: "(MusicTrack \<Rightarrow> state \<Rightarrow> state) \<Rightarrow> state \<Rightarrow> state" where
  "toggleMusic_with load s =
     (if isPlaying s then stopPlayback s
      else (let s1 = s\<lparr>isPlaying := True\<rparr>;
                track = getMatchingTrack (currentBPM s1)
            in load track s1))"

definition toggleMusic :: "world \<Rightarrow> state \<Rightarrow> state" where
  "toggleMusic w s = toggleMusic_with (loadAndPlayAudio w) s"

section \<open>The cadence estimator and the step detector\<close>

text \<open>
  The block of \<^verbatim>\<open>calculateSpeed\<close> that the test \<^verbatim>\<open>Math.abs(newBPM - currentBPM) > 2\<close>
  guards.
\<close>

definition onCadenceChanged_with ::
  "(MusicTrack \<Rightarrow> state \<Rightarrow> state) \<Rightarrow> jsnum \<Rightarrow> state \<Rightarrow> state" where
  "onCadenceChanged_with load newBPM s =
     (if js_gt (Math_abs (js_sub newBPM (currentBPM s))) (Num 2) then
        (let previousTrack = getMatchingTrack (currentBPM s);
             s1 = s\<lparr>currentBPM := Math_round newBPM\<rparr>;
             newTrack = getMatchingTrack (currentBPM s1)
         in if isPlaying s1 \<and> audioFile newTrack \<noteq> audioFile previousTrack then
              load newTrack s1
            else if isPlaying s1 then adjustPlaybackSpeed (currentBPM s1) s1
            else s1)
      else s)"

definition onCadenceChanged :: "world \<Rightarrow> jsnum \<Rightarrow> state \<Rightarrow> state" where
  "onCadenceChanged w newBPM s = onCadenceChanged_with (loadAndPlayAudio w) newBPM s"

text \<open>
  \<^verbatim>\<open>(Date.now() - lastStepTime) / 1000\<close>, where \<open>clock\<close> is what \<^verbatim>\<open>Date.now()\<close> answers
  inside \<^verbatim>\<open>calculateSpeed\<close>.
\<close>

definition timeElapsed :: "int \<Rightarrow> state \<Rightarrow> jsnum" where
  "timeElapsed clock s = js_div (Num (of_int (clock - lastStepTime s))) (Num 1000)"

definition stepRate :: "int \<Rightarrow> state \<Rightarrow> jsnum" where
  "stepRate clock s = js_div (Num 1) (timeElapsed clock s)"

definition calculateSpeed_with ::
  "(MusicTrack \<Rightarrow> state \<Rightarrow> state) \<Rightarrow> int \<Rightarrow> state \<Rightarrow> state" where
  "calculateSpeed_with load clock s =
     (let stepLength = lit (7 / 10)
      in if 1 < steps s then
           (let s1 = s\<lparr>speed := js_mul (stepRate clock s) stepLength\<rparr>;
                newBPM = Math_min (Num 180) (Math_max (Num 60) (js_mul (stepRate clock s) (Num 60)))
            in onCadenceChanged_with load newBPM s1)
         else s)"

definition calculateSpeed :: "world \<Rightarrow> int \<Rightarrow> state \<Rightarrow> state" where
  "calculateSpeed w clock s = calculateSpeed_with (loadAndPlayAudio w) clock s"

text \<open>
  \<open>now\<close> is the reading of \<^verbatim>\<open>Date.now()\<close> in \<^verbatim>\<open>detectSteps\<close>, \<open>clock\<close> the later one in
  \<^verbatim>\<open>calculateSpeed\<close>.
\<close>

definition detectSteps_with ::
  "(MusicTrack \<Rightarrow> state \<Rightarrow> state) \<Rightarrow> int \<Rightarrow> int \<Rightarrow> jsnum \<Rightarrow> state \<Rightarrow> state" where
  "detectSteps_with load now clock magnitude s =
     (let threshold = Num (21 / 2)
      in if js_gt magnitude threshold then
           (if 300 < now - lastStepTime s then
              calculateSpeed_with load clock (s\<lparr>steps := steps s + 1, lastStepTime := now\<rparr>)
            else s)
         else s)"

definition detectSteps :: "world \<Rightarrow> int \<Rightarrow> int \<Rightarrow> jsnum \<Rightarrow> state \<Rightarrow> state" where
  "detectSteps w now clock magnitude s =
     detectSteps_with (loadAndPlayAudio w) now clock magnitude s"

text \<open>
  One motion sample as the detector meets it: the magnitude, the two clock readings
  and the platform's answers, should the step lead to a load.
\<close>

record sample =
  sm_world :: world
  sm_now :: int
  sm_clock :: int
  sm_magnitude :: jsnum

definition detectSample :: "sample \<Rightarrow> state \<Rightarrow> state" where
  "detectSample x s = detectSteps (sm_world x) (sm_now x) (sm_clock x) (sm_magnitude x) s"

text \<open>
  The step events of a run: a sample is a step event, stamped with its reading of the
  clock, when the detector counts it.
\<close>

fun stepEvents :: "state \<Rightarrow> sample list \<Rightarrow> int list" where
  "stepEvents s [] = []"
| "stepEvents s (x # xs) =
     (let s' = detectSample x s
      in (if steps s' = steps s + 1 then [sm_now x] else []) @ stepEvents s' xs)"

section \<open>Monitoring and the demo generator\<close>

text \<open>The two variables that the interval callback of \<^verbatim>\<open>startDemoMode\<close> closes over.\<close>

record demo =
  demoValue :: jsnum
  increasing :: bool

definition startDemoMode :: "state \<Rightarrow> demo \<times> state" where
  "startDemoMode s =
     (\<lparr>demoValue = Num (1 / 2), increasing = True\<rparr>,
      s\<lparr>isDemoMode := True, permissionStatus := ''Demo mode (simulated motion)''\<rparr>)"

text \<open>
  The first statement of the interval callback, the \<^verbatim>\<open>if\<close> that moves the value by 0.05
  and turns the direction.
\<close>

definition demoStep :: "demo \<Rightarrow> demo" where
  "demoStep d =
     (if increasing d then
        (let v = js_add (demoValue d) (lit (1 / 20))
         in \<lparr>demoValue = v, increasing = (if js_gt v (lit (9 / 5)) then False else True)\<rparr>)
      else
        (let v = js_sub (demoValue d) (lit (1 / 20))
         in \<lparr>demoValue = v, increasing = (if js_lt v (Num (1 / 2)) then True else False)\<rparr>))"

text \<open>One run of the interval callback, every 1000 ms.\<close>

definition demoTick :: "demo \<times> state \<Rightarrow> demo \<times> state" where
  "demoTick ds =
     (let d1 = demoStep (fst ds); s = snd ds
      in (d1, s\<lparr>speed := demoValue d1,
                currentBPM := Math_round (js_add (Num 80) (js_mul (demoValue d1) (Num 40)))\<rparr>))"

fun demoRun :: "nat \<Rightarrow> demo \<times> state \<Rightarrow> demo \<times> state" where
  "demoRun 0 ds = ds"
| "demoRun (Suc n) ds = demoTick (demoRun n ds)"

definition startMonitoring :: "state \<Rightarrow> state" where
  "startMonitoring s =
     (if \<not> permissionGranted s \<or> isMonitoring s then s else s\<lparr>isMonitoring := True\<rparr>)"

text \<open>
  The callback that \<^verbatim>\<open>startMonitoring\<close> schedules for 3000 ms later; it answers the
  closure of the generator when it starts one.
\<close>

definition demoTimeout :: "state \<Rightarrow> demo option \<times> state" where
  "demoTimeout s =
     (if \<not> isDemoMode s \<and> speed s = Num 0 then
        (let ds = startDemoMode s in (Some (fst ds), snd ds))
      else (None, s))"

text \<open>
  \<^verbatim>\<open>requestPermission\<close>: the platform either prompts and answers, has no prompt at all
  (the branch for devices other than iOS), or the request raises.
\<close>

datatype permission_answer = Granted | Denied | NoPrompt | Raised

definition requestPermission :: "permission_answer \<Rightarrow> state \<Rightarrow> state" where
  "requestPermission answer s =
     (case answer of
        Granted \<Rightarrow> startMonitoring (s\<lparr>permissionGranted := True, permissionStatus := ''Motion access granted''\<rparr>)
      | Denied \<Rightarrow> s\<lparr>permissionStatus := ''Permission denied''\<rparr>
      | NoPrompt \<Rightarrow> startMonitoring (s\<lparr>permissionGranted := True, permissionStatus := ''Motion access granted''\<rparr>)
      | Raised \<Rightarrow> s\<lparr>permissionStatus := ''Error requesting permission''\<rparr>)"

section \<open>Runs of the page\<close>

text \<open>
  What can happen on the page, one event after the other and in any order: the
  permission button (disabled once permission is granted), the play button (disabled
  while \<^verbatim>\<open>isLoading\<close>), a motion event (delivered once the listener is installed), the
  settling of a load that waits (any of them, with the platform's answers), the 3000 ms
  timeout, a tick of the demo interval, and the teardown of the component (its
  \<^verbatim>\<open>stopAudio\<close>; the closing of the audio context is left out).  A handler that calls
  \<^verbatim>\<open>loadAndPlayAudio\<close> leaves the load waiting; other events come before it settles.
\<close>

datatype action =
  Permission permission_answer
| Toggle world
| Motion sample
| Settle nat world
| Timeout
| Tick
| Teardown

fun perform :: "action \<Rightarrow> demo option \<times> state \<Rightarrow> demo option \<times> state" where
  "perform (Permission answer) (d, s) =
     (d, if permissionGranted s then s else requestPermission answer s)"
| "perform (Toggle w) (d, s) =
     (d, if isLoading s then s else toggleMusic_with (loadSuspended w) s)"
| "perform (Motion x) (d, s) =
     (d, if isMonitoring s
         then detectSteps_with (loadSuspended (sm_world x)) (sm_now x) (sm_clock x) (sm_magnitude x) s
         else s)"
| "perform (Settle i w) (d, s) =
     (d, if i < length (inflight s)
         then loadComplete w (inflight s ! i)
                (s\<lparr>inflight := take i (inflight s) @ drop (Suc i) (inflight s)\<rparr>)
         else s)"
| "perform Timeout (d, s) =
     (if isMonitoring s
      then (case demoTimeout s of (Some d', s') \<Rightarrow> (Some d', s') | (None, s') \<Rightarrow> (d, s'))
      else (d, s))"
| "perform Tick (Some d, s) = (let ds = demoTick (d, s) in (Some (fst ds), snd ds))"
| "perform Tick (None, s) = (None, s)"
| "perform Teardown (d, s) = (d, stopAudio s)"

fun run :: "action list \<Rightarrow> demo option \<times> state \<Rightarrow> demo option \<times> state" where
  "run [] c = c"
| "run (a # as) c = run as (perform a c)"

text \<open>
  The runs in which loads do not overlap: at no moment does more than one load wait.
  Nothing in the script keeps a second load from starting while one waits.
\<close>

fun oneLoadAtATime :: "action list \<Rightarrow> demo option \<times> state \<Rightarrow> bool" where
  "oneLoadAtATime [] c = (length (inflight (snd c)) \<le> 1)"
| "oneLoadAtATime (a # as) c =
     (length (inflight (snd c)) \<le> 1 \<and> oneLoadAtATime as (perform a c))"

text \<open>An engine is active when its node or element exists and is playing.\<close>

definition bufferActive :: "state \<Rightarrow> bool" where
  "bufferActive s = (case audioSource s of Some node \<Rightarrow> bs_playing node | None \<Rightarrow> False)"

definition elementActive :: "state \<Rightarrow> bool" where
  "elementActive s = (case currentAudio s of Some el \<Rightarrow> \<not> el_paused el | None \<Rightarrow> False)"


section \<open>Invariants\<close>


text \<open>The closures that the first \<open>n\<close> ticks of the demo generator pass through.\<close>

fun demoTrace :: "nat \<Rightarrow> demo \<Rightarrow> demo list" where
  "demoTrace 0 d = []"
| "demoTrace (Suc n) d = demoStep d # demoTrace n (demoStep d)"

text \<open>
  The band that the demo value stays in: from the double 0.45 up to the double
  1.8000000000000012, five units in the last place above the double 1.8.
\<close>

definition inDemoBand :: "demo \<Rightarrow> bool" where
  "inDemoBand d =
     (case demoValue d of
        Num v \<Rightarrow> 8106479329266893 / 2 ^ 54 \<le> v \<and> v \<le> 4053239664633449 / 2 ^ 51
      | PosInf \<Rightarrow> False
      | NegInf \<Rightarrow> False
      | NaN \<Rightarrow> False)"

section \<open>Shared facts\<close>

subsection \<open>Evaluating doubles\<close>

lemmas double_eval =
  to_double_def overflow_or_def quantize_def round_half_even_def nearest_even_def
  exponent_def exp_up.simps exp_down.simps pow2_def

lemma lit_7_10: "lit (7 / 10) = Num (3152519739159347 / 2 ^ 52)"
  by (simp add: lit_def double_eval)

lemma lit_1_20: "lit (1 / 20) = Num (3602879701896397 / 2 ^ 56)"
  by (simp add: lit_def double_eval)

lemma lit_9_5: "lit (9 / 5) = Num (8106479329266893 / 2 ^ 52)"
  by (simp add: lit_def double_eval)

lemma lit_9_20: "lit (9 / 20) = Num (8106479329266893 / 2 ^ 54)"
  by (simp add: lit_def double_eval)

lemma to_double_0 [simp]: "to_double 0 = Num 0"
  by (simp add: to_double_def)

subsection \<open>The functions that load, when the load settles at once\<close>

lemma loadAndPlayAudio_unfold:
  "loadAndPlayAudio w track s =
     (let s1 = (if \<not> audioContext s \<or> \<not> gainNode s then initializeAudioContext w s else s);
          s2 = s1\<lparr>isLoading := True\<rparr>;
          s3 = (case audioSource s2 of
                  Some node \<Rightarrow> s2\<lparr>audioSource := Some (node\<lparr>bs_playing := False, bs_connected := False\<rparr>)\<rparr>
                | None \<Rightarrow> s2)
      in if fetchOk w \<and> audioContext s3 \<and> decodeOk w then
           s3\<lparr>audioSource := Some
                \<lparr>bs_buffer = audioFile track, bs_loop = True,
                 bs_playbackRate = computeRate (currentBPM s3) (originalBPM track),
                 bs_playing = True, bs_connected = True\<rparr>,
              isLoading := False\<rparr>
         else playWithHTMLAudio w track (s3\<lparr>isLoading := False\<rparr>))"
  by (simp add: loadAndPlayAudio_def loadComplete_def loadBegin_def Let_def split: option.splits)

lemma toggleMusic_unfold:
  "toggleMusic w s =
     (if isPlaying s then stopPlayback s
      else (let s1 = s\<lparr>isPlaying := True\<rparr>;
                track = getMatchingTrack (currentBPM s1)
            in loadAndPlayAudio w track s1))"
  by (simp add: toggleMusic_def toggleMusic_with_def)

lemma onCadenceChanged_unfold:
  "onCadenceChanged w newBPM s =
     (if js_gt (Math_abs (js_sub newBPM (currentBPM s))) (Num 2) then
        (let previousTrack = getMatchingTrack (currentBPM s);
             s1 = s\<lparr>currentBPM := Math_round newBPM\<rparr>;
             newTrack = getMatchingTrack (currentBPM s1)
         in if isPlaying s1 \<and> audioFile newTrack \<noteq> audioFile previousTrack then
              loadAndPlayAudio w newTrack s1
            else if isPlaying s1 then adjustPlaybackSpeed (currentBPM s1) s1
            else s1)
      else s)"
  by (simp add: onCadenceChanged_def onCadenceChanged_with_def)

lemma calculateSpeed_unfold:
  "calculateSpeed w clock s =
     (let stepLength = lit (7 / 10)
      in if 1 < steps s then
           (let s1 = s\<lparr>speed := js_mul (stepRate clock s) stepLength\<rparr>;
                newBPM = Math_min (Num 180) (Math_max (Num 60) (js_mul (stepRate clock s) (Num 60)))
            in onCadenceChanged w newBPM s1)
         else s)"
  by (simp add: calculateSpeed_def calculateSpeed_with_def onCadenceChanged_def)

lemma detectSteps_unfold:
  "detectSteps w now clock magnitude s =
     (let threshold = Num (21 / 2)
      in if js_gt magnitude threshold then
           (if 300 < now - lastStepTime s then
              calculateSpeed w clock (s\<lparr>steps := steps s + 1, lastStepTime := now\<rparr>)
            else s)
         else s)"
  by (simp add: detectSteps_def detectSteps_with_def calculateSpeed_def)

lemmas page_eval =
  detectSteps_unfold calculateSpeed_unfold onCadenceChanged_unfold timeElapsed_def stepRate_def
  js_gt_def js_sub_def Math_min_def Math_max_def inf_of_sign_def Let_def

lemmas run_eval =
  toggleMusic_with_def detectSteps_with_def calculateSpeed_with_def onCadenceChanged_with_def
  loadSuspended_def loadBegin_def loadComplete_def initializeAudioContext_def
  playWithHTMLAudio_def adjustPlaybackSpeed_def stopPlayback_def stopAudio_def
  requestPermission_def startMonitoring_def demoTimeout_def startDemoMode_def demoTick_def
  demoStep_def computeRate_def getMatchingTrack_def musicTracks_def inRange_def js_ge_def
  timeElapsed_def stepRate_def js_gt_def js_sub_def Math_min_def Math_max_def inf_of_sign_def
  bufferActive_def elementActive_def initial_def Let_def lit_7_10 lit_1_20 lit_9_5

subsection \<open>The catalog\<close>

lemma musicTracks_first:
  "musicTracks ! 0 =
     \<lparr>minBPM = Num 0, maxBPM = Num 90, name = ''Relaxing Ambient'', artist = ''Soundscape'',
      audioFile = ''/songs/relaxing-ambient.mp3'', originalBPM = Num 75\<rparr>"
  by (simp add: musicTracks_def)






subsection \<open>Stopping\<close>




section \<open>The track selector\<close>

text \<open>
  C6.  For every BPM value, \<open>getMatchingTrack\<close> answers the first entry of the catalog
  whose half-open range \<open>[minBPM, maxBPM)\<close> holds the value, and the first entry of the
  catalog when no range does.  89 selects Relaxing Ambient, 90 Chill Vibes, 199 Power
  Walk, and 200, which no range holds, the first entry.
\<close>

theorem getMatchingTrack_first_in_range:
  "((\<exists>i < length musicTracks.
       inRange bpm (musicTracks ! i) \<and> (\<forall>j < i. \<not> inRange bpm (musicTracks ! j)) \<and>
       getMatchingTrack bpm = musicTracks ! i)
    \<or> ((\<forall>t \<in> set musicTracks. \<not> inRange bpm t) \<and> getMatchingTrack bpm = musicTracks ! 0))
   \<and> name (getMatchingTrack (Num 89)) = ''Relaxing Ambient''
   \<and> name (getMatchingTrack (Num 90)) = ''Chill Vibes''
   \<and> name (getMatchingTrack (Num 199)) = ''Power Walk''
   \<and> (\<forall>t \<in> set musicTracks. \<not> inRange (Num 200) t)
   \<and> getMatchingTrack (Num 200) = musicTracks ! 0"
proof -
  have general:
    "(\<exists>i < length musicTracks.
        inRange bpm (musicTracks ! i) \<and> (\<forall>j < i. \<not> inRange bpm (musicTracks ! j)) \<and>
        getMatchingTrack bpm = musicTracks ! i)
     \<or> ((\<forall>t \<in> set musicTracks. \<not> inRange bpm t) \<and> getMatchingTrack bpm = musicTracks ! 0)"
  proof (cases "find (inRange bpm) musicTracks")
    case None
    then have "\<forall>t \<in> set musicTracks. \<not> inRange bpm t"
      by (simp add: find_None_iff)
    moreover from None have "getMatchingTrack bpm = musicTracks ! 0"
      by (simp add: getMatchingTrack_def)
    ultimately show ?thesis by blast
  next
    case (Some t)
    then obtain i where "i < length musicTracks" "inRange bpm (musicTracks ! i)"
      "t = musicTracks ! i" "\<forall>j < i. \<not> inRange bpm (musicTracks ! j)"
      unfolding find_Some_iff by blast
    moreover from Some have "getMatchingTrack bpm = t"
      by (simp add: getMatchingTrack_def)
    ultimately show ?thesis by blast
  qed
  have "name (getMatchingTrack (Num 89)) = ''Relaxing Ambient''"
    by (simp add: getMatchingTrack_def musicTracks_def inRange_def js_ge_def)
  moreover have "name (getMatchingTrack (Num 90)) = ''Chill Vibes''"
    by (simp add: getMatchingTrack_def musicTracks_def inRange_def js_ge_def)
  moreover have "name (getMatchingTrack (Num 199)) = ''Power Walk''"
    by (simp add: getMatchingTrack_def musicTracks_def inRange_def js_ge_def)
  moreover have "\<forall>t \<in> set musicTracks. \<not> inRange (Num 200) t"
    by (simp add: musicTracks_def inRange_def js_ge_def)
  moreover have "getMatchingTrack (Num 200) = musicTracks ! 0"
    by (simp add: getMatchingTrack_def musicTracks_def inRange_def js_ge_def)
  ultimately show ?thesis using general by blast
qed

theorem getMatchingTrack_first_in_range_witness:
  "inRange (Num 100) (musicTracks ! 1) \<and> \<not> inRange (Num 100) (musicTracks ! 0)
   \<and> getMatchingTrack (Num 100) = musicTracks ! 1
   \<and> name (getMatchingTrack (Num 100)) = ''Chill Vibes''"
proof -
  have in1: "inRange (Num 100) (musicTracks ! 1)"
    by (simp add: musicTracks_def inRange_def js_ge_def)
  have out: "\<not> inRange (Num 100) (musicTracks ! 0)"
    "\<not> inRange (Num 100) (musicTracks ! 2)" "\<not> inRange (Num 100) (musicTracks ! 3)"
    "\<not> inRange (Num 100) (musicTracks ! 4)"
    by (simp_all add: musicTracks_def inRange_def js_ge_def)
  from getMatchingTrack_first_in_range [of "Num 100"]
  consider i where "i < length musicTracks" "inRange (Num 100) (musicTracks ! i)"
      "getMatchingTrack (Num 100) = musicTracks ! i"
    | "\<forall>t \<in> set musicTracks. \<not> inRange (Num 100) t"
    by blast
  then have "getMatchingTrack (Num 100) = musicTracks ! 1"
  proof cases
    case 1
    have "length musicTracks = 5" by (simp add: musicTracks_def)
    with 1(1) have "i = 0 \<or> i = 1 \<or> i = 2 \<or> i = 3 \<or> i = 4" by arith
    with 1(2) out have "i = 1" by auto
    with 1(3) show ?thesis by simp
  next
    case 2
    moreover have "musicTracks ! 1 \<in> set musicTracks" by (simp add: musicTracks_def)
    ultimately show ?thesis using in1 by blast
  qed
  moreover have "name (musicTracks ! 1) = ''Chill Vibes''" by (simp add: musicTracks_def)
  ultimately show ?thesis using in1 out(1) by simp
qed

section \<open>Stopping playback\<close>


section \<open>What the audio functions leave alone\<close>

lemma playWithHTMLAudio_frame:
  "isPlaying (playWithHTMLAudio w track s) = isPlaying s"
  "steps (playWithHTMLAudio w track s) = steps s"
  "lastStepTime (playWithHTMLAudio w track s) = lastStepTime s"
  "currentBPM (playWithHTMLAudio w track s) = currentBPM s"
  "audioSource (playWithHTMLAudio w track s) = audioSource s"
  by (simp_all add: playWithHTMLAudio_def Let_def split: option.splits)

lemma loadAndPlayAudio_frame:
  "isPlaying (loadAndPlayAudio w track s) = isPlaying s"
  "steps (loadAndPlayAudio w track s) = steps s"
  "lastStepTime (loadAndPlayAudio w track s) = lastStepTime s"
  "currentBPM (loadAndPlayAudio w track s) = currentBPM s"
  by (simp_all add: loadAndPlayAudio_unfold initializeAudioContext_def playWithHTMLAudio_frame
      Let_def split: option.splits)

lemma adjustPlaybackSpeed_frame:
  "isPlaying (adjustPlaybackSpeed bpm s) = isPlaying s"
  "steps (adjustPlaybackSpeed bpm s) = steps s"
  "lastStepTime (adjustPlaybackSpeed bpm s) = lastStepTime s"
  "currentBPM (adjustPlaybackSpeed bpm s) = currentBPM s"
  by (simp_all add: adjustPlaybackSpeed_def Let_def split: option.splits)

lemma onCadenceChanged_frame:
  "isPlaying (onCadenceChanged w newBPM s) = isPlaying s"
  "steps (onCadenceChanged w newBPM s) = steps s"
  "lastStepTime (onCadenceChanged w newBPM s) = lastStepTime s"
  by (simp_all add: onCadenceChanged_unfold loadAndPlayAudio_frame adjustPlaybackSpeed_frame Let_def)

lemma onCadenceChanged_idle:
  "\<not> isPlaying s \<Longrightarrow> audioSource (onCadenceChanged w newBPM s) = audioSource s"
  "\<not> isPlaying s \<Longrightarrow> currentAudio (onCadenceChanged w newBPM s) = currentAudio s"
  by (simp_all add: onCadenceChanged_unfold Let_def)

lemma calculateSpeed_frame:
  "isPlaying (calculateSpeed w clock s) = isPlaying s"
  "steps (calculateSpeed w clock s) = steps s"
  "lastStepTime (calculateSpeed w clock s) = lastStepTime s"
  by (simp_all add: calculateSpeed_unfold onCadenceChanged_frame Let_def)

lemma calculateSpeed_idle:
  "\<not> isPlaying s \<Longrightarrow> audioSource (calculateSpeed w clock s) = audioSource s"
  "\<not> isPlaying s \<Longrightarrow> currentAudio (calculateSpeed w clock s) = currentAudio s"
  by (simp_all add: calculateSpeed_unfold onCadenceChanged_idle Let_def)

lemma detectSteps_isPlaying:
  "isPlaying (detectSteps w now clock magnitude s) = isPlaying s"
  by (simp add: detectSteps_unfold calculateSpeed_frame Let_def)

lemma detectSteps_idle:
  "\<not> isPlaying s \<Longrightarrow> audioSource (detectSteps w now clock magnitude s) = audioSource s"
  "\<not> isPlaying s \<Longrightarrow> currentAudio (detectSteps w now clock magnitude s) = currentAudio s"
  by (simp_all add: detectSteps_unfold calculateSpeed_idle Let_def)

text \<open>
  Whether the Web Audio path of a load gets as far as starting the source: the fetch
  and the decoding succeed and there is an audio context, an earlier one or the one
  created now.
\<close>

lemma loadAndPlayAudio_bufferActive:
  "bufferActive (loadAndPlayAudio w track s) =
     (fetchOk w \<and> decodeOk w \<and> (audioContext s \<or> initOk w))"
  by (auto simp: bufferActive_def loadAndPlayAudio_unfold initializeAudioContext_def
      playWithHTMLAudio_frame Let_def split: option.splits)

lemma loadAndPlayAudio_elementActive:
  "currentAudio s = None \<Longrightarrow>
   elementActive (loadAndPlayAudio w track s) =
     (\<not> (fetchOk w \<and> decodeOk w \<and> (audioContext s \<or> initOk w)) \<and> audioCtorOk w \<and> playOk w)"
  by (auto simp: elementActive_def loadAndPlayAudio_unfold initializeAudioContext_def
      playWithHTMLAudio_def Let_def split: option.splits)

lemma loadAndPlayAudio_both_fail:
  "\<not> fetchOk w \<or> \<not> decodeOk w \<Longrightarrow> \<not> playOk w \<Longrightarrow>
   \<not> bufferActive (loadAndPlayAudio w track s) \<and> \<not> elementActive (loadAndPlayAudio w track s)"
  by (auto simp: bufferActive_def elementActive_def loadAndPlayAudio_unfold
      initializeAudioContext_def playWithHTMLAudio_def Let_def split: option.splits)

section \<open>Loads that wait\<close>







section \<open>The playing flag and the engines\<close>

text \<open>
  C3, as the specification has it, fails: the play button is pressed in the initial
  state, the fetch of the file fails and the fallback's \<open>play()\<close> is rejected.  Neither
  engine is playing, and \<open>isPlaying\<close> is true.
\<close>

theorem isPlaying_true_though_both_engines_failed:
  "isPlaying (toggleMusic
      \<lparr>initOk = True, fetchOk = False, decodeOk = True, audioCtorOk = True, playOk = False\<rparr>
      initial) = True
   \<and> bufferActive (toggleMusic
      \<lparr>initOk = True, fetchOk = False, decodeOk = True, audioCtorOk = True, playOk = False\<rparr>
      initial) = False
   \<and> elementActive (toggleMusic
      \<lparr>initOk = True, fetchOk = False, decodeOk = True, audioCtorOk = True, playOk = False\<rparr>
      initial) = False"
  by (simp add: toggleMusic_unfold initial_def loadAndPlayAudio_unfold initializeAudioContext_def
      playWithHTMLAudio_def bufferActive_def elementActive_def Let_def)

text \<open>
  C3, amended.  A press of the play button while not playing sets \<open>isPlaying\<close> to true
  before the load and nothing resets it: it is true afterwards whatever the engines
  did.  When the fetch or the decoding fails and the fallback's \<open>play()\<close> is rejected,
  \<open>isPlaying\<close> is true although neither engine is active.
\<close>

theorem toggle_start_sets_isPlaying_regardless:
  "\<not> isPlaying s \<Longrightarrow>
   isPlaying (toggleMusic w s)
   \<and> ((\<not> fetchOk w \<or> \<not> decodeOk w) \<and> \<not> playOk w \<longrightarrow>
        \<not> bufferActive (toggleMusic w s) \<and> \<not> elementActive (toggleMusic w s))"
  using loadAndPlayAudio_both_fail [of w "getMatchingTrack (currentBPM s)" "s\<lparr>isPlaying := True\<rparr>"]
  by (simp add: toggleMusic_unfold loadAndPlayAudio_frame Let_def)

theorem toggle_start_sets_isPlaying_regardless_witness:
  "\<not> isPlaying initial
   \<and> isPlaying (toggleMusic
       \<lparr>initOk = True, fetchOk = True, decodeOk = False, audioCtorOk = True, playOk = False\<rparr> initial)
   \<and> \<not> bufferActive (toggleMusic
       \<lparr>initOk = True, fetchOk = True, decodeOk = False, audioCtorOk = True, playOk = False\<rparr> initial)
   \<and> \<not> elementActive (toggleMusic
       \<lparr>initOk = True, fetchOk = True, decodeOk = False, audioCtorOk = True, playOk = False\<rparr> initial)"
proof -
  have idle: "\<not> isPlaying initial" by (simp add: initial_def)
  from toggle_start_sets_isPlaying_regardless [OF idle,
      of "\<lparr>initOk = True, fetchOk = True, decodeOk = False, audioCtorOk = True, playOk = False\<rparr>"]
  show ?thesis using idle by simp
qed

section \<open>Engines over the runs of the page\<close>


















text \<open>
  The invariant of the specification also fails in ways that the amended statement
  neither promises nor denies.  \<open>loadAndPlayAudio\<close> stops the buffered source before
  loading, not the element, although \<open>stopAudio\<close> tears down both: once playback runs
  on the fallback element and a later track switch succeeds on the Web Audio path,
  both engines play at once, in a run whose loads do not overlap.
\<close>

lemma track_switch_leaves_element_running:
  "oneLoadAtATime
      [Permission NoPrompt,
       Toggle \<lparr>initOk = True, fetchOk = False, decodeOk = True, audioCtorOk = True, playOk = True\<rparr>,
       Settle 0 \<lparr>initOk = True, fetchOk = False, decodeOk = True, audioCtorOk = True, playOk = True\<rparr>,
       Motion \<lparr>sm_world = \<lparr>initOk = True, fetchOk = True, decodeOk = True, audioCtorOk = True, playOk = True\<rparr>,
               sm_now = 1000, sm_clock = 1000, sm_magnitude = Num 11\<rparr>,
       Motion \<lparr>sm_world = \<lparr>initOk = True, fetchOk = True, decodeOk = True, audioCtorOk = True, playOk = True\<rparr>,
               sm_now = 1500, sm_clock = 1500, sm_magnitude = Num 11\<rparr>,
       Settle 0 \<lparr>initOk = True, fetchOk = True, decodeOk = True, audioCtorOk = True, playOk = True\<rparr>]
      (None, initial)
   \<and> bufferActive (snd (run
      [Permission NoPrompt,
       Toggle \<lparr>initOk = True, fetchOk = False, decodeOk = True, audioCtorOk = True, playOk = True\<rparr>,
       Settle 0 \<lparr>initOk = True, fetchOk = False, decodeOk = True, audioCtorOk = True, playOk = True\<rparr>,
       Motion \<lparr>sm_world = \<lparr>initOk = True, fetchOk = True, decodeOk = True, audioCtorOk = True, playOk = True\<rparr>,
               sm_now = 1000, sm_clock = 1000, sm_magnitude = Num 11\<rparr>,
       Motion \<lparr>sm_world = \<lparr>initOk = True, fetchOk = True, decodeOk = True, audioCtorOk = True, playOk = True\<rparr>,
               sm_now = 1500, sm_clock = 1500, sm_magnitude = Num 11\<rparr>,
       Settle 0 \<lparr>initOk = True, fetchOk = True, decodeOk = True, audioCtorOk = True, playOk = True\<rparr>]
      (None, initial)))
   \<and> elementActive (snd (run
      [Permission NoPrompt,
       Toggle \<lparr>initOk = True, fetchOk = False, decodeOk = True, audioCtorOk = True, playOk = True\<rparr>,
       Settle 0 \<lparr>initOk = True, fetchOk = False, decodeOk = True, audioCtorOk = True, playOk = True\<rparr>,
       Motion \<lparr>sm_world = \<lparr>initOk = True, fetchOk = True, decodeOk = True, audioCtorOk = True, playOk = True\<rparr>,
               sm_now = 1000, sm_clock = 1000, sm_magnitude = Num 11\<rparr>,
       Motion \<lparr>sm_world = \<lparr>initOk = True, fetchOk = True, decodeOk = True, audioCtorOk = True, playOk = True\<rparr>,
               sm_now = 1500, sm_clock = 1500, sm_magnitude = Num 11\<rparr>,
       Settle 0 \<lparr>initOk = True, fetchOk = True, decodeOk = True, audioCtorOk = True, playOk = True\<rparr>]
      (None, initial)))"
  by (simp add: run_eval double_eval)

text \<open>
  And when loads overlap: \<open>calculateSpeed\<close> starts a load whether or not one waits.  In
  the run below a second track switch starts while the first load waits; the first
  settles and clears \<open>isLoading\<close>, the play button stops playback, and the second load
  settles afterwards and starts a source while \<open>isPlaying\<close> is false.
\<close>

lemma overlapping_load_plays_after_stop:
  "isPlaying (snd (run
      [Permission NoPrompt,
       Toggle \<lparr>initOk = True, fetchOk = True, decodeOk = True, audioCtorOk = True, playOk = True\<rparr>,
       Settle 0 \<lparr>initOk = True, fetchOk = True, decodeOk = True, audioCtorOk = True, playOk = True\<rparr>,
       Timeout,
       Motion \<lparr>sm_world = \<lparr>initOk = True, fetchOk = True, decodeOk = True, audioCtorOk = True, playOk = True\<rparr>,
               sm_now = 4000, sm_clock = 4000, sm_magnitude = Num 11\<rparr>,
       Motion \<lparr>sm_world = \<lparr>initOk = True, fetchOk = True, decodeOk = True, audioCtorOk = True, playOk = True\<rparr>,
               sm_now = 4500, sm_clock = 4500, sm_magnitude = Num 11\<rparr>,
       Tick,
       Motion \<lparr>sm_world = \<lparr>initOk = True, fetchOk = True, decodeOk = True, audioCtorOk = True, playOk = True\<rparr>,
               sm_now = 5000, sm_clock = 5000, sm_magnitude = Num 11\<rparr>,
       Settle 0 \<lparr>initOk = True, fetchOk = True, decodeOk = True, audioCtorOk = True, playOk = True\<rparr>,
       Toggle \<lparr>initOk = True, fetchOk = True, decodeOk = True, audioCtorOk = True, playOk = True\<rparr>,
       Settle 0 \<lparr>initOk = True, fetchOk = True, decodeOk = True, audioCtorOk = True, playOk = True\<rparr>]
      (None, initial))) = False
   \<and> bufferActive (snd (run
      [Permission NoPrompt,
       Toggle \<lparr>initOk = True, fetchOk = True, decodeOk = True, audioCtorOk = True, playOk = True\<rparr>,
       Settle 0 \<lparr>initOk = True, fetchOk = True, decodeOk = True, audioCtorOk = True, playOk = True\<rparr>,
       Timeout,
       Motion \<lparr>sm_world = \<lparr>initOk = True, fetchOk = True, decodeOk = True, audioCtorOk = True, playOk = True\<rparr>,
               sm_now = 4000, sm_clock = 4000, sm_magnitude = Num 11\<rparr>,
       Motion \<lparr>sm_world = \<lparr>initOk = True, fetchOk = True, decodeOk = True, audioCtorOk = True, playOk = True\<rparr>,
               sm_now = 4500, sm_clock = 4500, sm_magnitude = Num 11\<rparr>,
       Tick,
       Motion \<lparr>sm_world = \<lparr>initOk = True, fetchOk = True, decodeOk = True, audioCtorOk = True, playOk = True\<rparr>,
               sm_now = 5000, sm_clock = 5000, sm_magnitude = Num 11\<rparr>,
       Settle 0 \<lparr>initOk = True, fetchOk = True, decodeOk = True, audioCtorOk = True, playOk = True\<rparr>,
       Toggle \<lparr>initOk = True, fetchOk = True, decodeOk = True, audioCtorOk = True, playOk = True\<rparr>,
       Settle 0 \<lparr>initOk = True, fetchOk = True, decodeOk = True, audioCtorOk = True, playOk = True\<rparr>]
      (None, initial)))"
  by (simp add: run_eval double_eval)

section \<open>The playback rate\<close>












section \<open>The refractory period of the step detector\<close>

lemma detectSample_counts:
  "(steps (detectSample x s) = steps s + 1) =
     (js_gt (sm_magnitude x) (Num (21 / 2)) \<and> 300 < sm_now x - lastStepTime s)"
  by (simp add: detectSample_def detectSteps_unfold calculateSpeed_frame Let_def)

lemma detectSample_lastStepTime:
  "lastStepTime (detectSample x s) =
     (if js_gt (sm_magnitude x) (Num (21 / 2)) \<and> 300 < sm_now x - lastStepTime s
      then sm_now x else lastStepTime s)"
  by (simp add: detectSample_def detectSteps_unfold calculateSpeed_frame Let_def)

lemma detectSample_rejects:
  "\<not> (js_gt (sm_magnitude x) (Num (21 / 2)) \<and> 300 < sm_now x - lastStepTime s) \<Longrightarrow>
   detectSample x s = s"
  by (auto simp: detectSample_def detectSteps_unfold Let_def)

lemma stepEvents_gaps:
  "sorted_wrt (\<lambda>a b. 300 < b - a) (stepEvents s xs)
   \<and> (\<forall>t \<in> set (stepEvents s xs). 300 < t - lastStepTime s)"
proof (induction xs arbitrary: s)
  case Nil
  show ?case by simp
next
  case (Cons x xs)
  let ?s' = "detectSample x s"
  note IH = Cons.IH [of ?s']
  show ?case
  proof (cases "js_gt (sm_magnitude x) (Num (21 / 2)) \<and> 300 < sm_now x - lastStepTime s")
    case True
    then have counted: "steps ?s' = steps s + 1"
      using detectSample_counts [of x s] by blast
    from True have last: "lastStepTime ?s' = sm_now x"
      by (simp add: detectSample_lastStepTime)
    from counted have ev: "stepEvents s (x # xs) = sm_now x # stepEvents ?s' xs"
      by (simp add: Let_def)
    from IH last have later: "\<forall>t \<in> set (stepEvents ?s' xs). 300 < t - sm_now x"
      by simp
    with True have "\<forall>t \<in> set (stepEvents ?s' xs). 300 < t - lastStepTime s"
      by auto
    with True later IH show ?thesis
      unfolding ev by simp
  next
    case False
    then have same: "?s' = s"
      by (rule detectSample_rejects)
    then have "stepEvents s (x # xs) = stepEvents s xs"
      by (simp add: Let_def)
    with IH same show ?thesis by simp
  qed
qed

text \<open>
  C5.  Whatever samples are fed to the detector, from whatever state, any two of the
  step events it accepts are more than 300 ms apart, and the first is more than 300 ms
  after the last step accepted before the run.  A sample is counted exactly when its
  magnitude exceeds 10.5 and more than 300 ms have passed since the last accepted
  step; any other sample leaves the state as it was.
\<close>

theorem step_events_more_than_300ms_apart:
  "(\<forall>i j. i < j \<and> j < length (stepEvents s xs) \<longrightarrow>
       300 < stepEvents s xs ! j - stepEvents s xs ! i)
   \<and> (\<forall>t \<in> set (stepEvents s xs). 300 < t - lastStepTime s)
   \<and> (steps (detectSample x s) = steps s + 1) =
       (js_gt (sm_magnitude x) (Num (21 / 2)) \<and> 300 < sm_now x - lastStepTime s)
   \<and> (\<not> (js_gt (sm_magnitude x) (Num (21 / 2)) \<and> 300 < sm_now x - lastStepTime s) \<longrightarrow>
       detectSample x s = s)"
proof -
  from stepEvents_gaps [of s xs]
  have "\<forall>i j. i < j \<and> j < length (stepEvents s xs) \<longrightarrow>
      300 < stepEvents s xs ! j - stepEvents s xs ! i"
    by (simp add: sorted_wrt_iff_nth_less)
  with stepEvents_gaps [of s xs] detectSample_counts [of x s] detectSample_rejects [of x s]
  show ?thesis by blast
qed

text \<open>
  At a concrete run from the initial state: strong samples at 1000, 1200, 1300, 1301 and
  1700 ms and a weak one at 2100 ms.  The detector accepts those at 1000, 1301 and 1700.
\<close>

theorem step_events_more_than_300ms_apart_witness:
  "stepEvents initial
     [\<lparr>sm_world = \<lparr>initOk = True, fetchOk = True, decodeOk = True, audioCtorOk = True, playOk = True\<rparr>,
       sm_now = 1000, sm_clock = 1000, sm_magnitude = Num 11\<rparr>,
      \<lparr>sm_world = \<lparr>initOk = True, fetchOk = True, decodeOk = True, audioCtorOk = True, playOk = True\<rparr>,
       sm_now = 1200, sm_clock = 1200, sm_magnitude = Num 30\<rparr>,
      \<lparr>sm_world = \<lparr>initOk = True, fetchOk = True, decodeOk = True, audioCtorOk = True, playOk = True\<rparr>,
       sm_now = 1300, sm_clock = 1300, sm_magnitude = Num 12\<rparr>,
      \<lparr>sm_world = \<lparr>initOk = True, fetchOk = True, decodeOk = True, audioCtorOk = True, playOk = True\<rparr>,
       sm_now = 1301, sm_clock = 1301, sm_magnitude = Num 12\<rparr>,
      \<lparr>sm_world = \<lparr>initOk = True, fetchOk = True, decodeOk = True, audioCtorOk = True, playOk = True\<rparr>,
       sm_now = 1700, sm_clock = 1700, sm_magnitude = PosInf\<rparr>,
      \<lparr>sm_world = \<lparr>initOk = True, fetchOk = True, decodeOk = True, audioCtorOk = True, playOk = True\<rparr>,
       sm_now = 2100, sm_clock = 2100, sm_magnitude = Num 10\<rparr>]
     = [1000, 1301, 1700]
   \<and> (300 :: int) < [1000, 1301, 1700] ! 1 - [1000, 1301, 1700] ! 0
   \<and> (300 :: int) < [1000, 1301, 1700] ! 2 - [1000, 1301, 1700] ! 1
   \<and> (300 :: int) < 1000 - lastStepTime initial"
proof -
  let ?ok = "\<lparr>initOk = True, fetchOk = True, decodeOk = True, audioCtorOk = True, playOk = True\<rparr>"
  let ?xs = "[\<lparr>sm_world = ?ok, sm_now = 1000, sm_clock = 1000, sm_magnitude = Num 11\<rparr>,
      \<lparr>sm_world = ?ok, sm_now = 1200, sm_clock = 1200, sm_magnitude = Num 30\<rparr>,
      \<lparr>sm_world = ?ok, sm_now = 1300, sm_clock = 1300, sm_magnitude = Num 12\<rparr>,
      \<lparr>sm_world = ?ok, sm_now = 1301, sm_clock = 1301, sm_magnitude = Num 12\<rparr>,
      \<lparr>sm_world = ?ok, sm_now = 1700, sm_clock = 1700, sm_magnitude = PosInf\<rparr>,
      \<lparr>sm_world = ?ok, sm_now = 2100, sm_clock = 2100, sm_magnitude = Num 10\<rparr>]"
  have ev: "stepEvents initial ?xs = [1000, 1301, 1700]"
    by (simp add: detectSample_def page_eval initial_def lit_7_10 double_eval)
  have len: "(0 :: nat) < 1 \<and> 1 < length (stepEvents initial ?xs)"
    "(1 :: nat) < 2 \<and> 2 < length (stepEvents initial ?xs)"
    unfolding ev by simp_all
  from step_events_more_than_300ms_apart [of initial ?xs] len
  have "300 < stepEvents initial ?xs ! 1 - stepEvents initial ?xs ! 0"
    "300 < stepEvents initial ?xs ! 2 - stepEvents initial ?xs ! 1"
    by blast+
  moreover from step_events_more_than_300ms_apart [of initial ?xs]
  have "\<forall>t \<in> set (stepEvents initial ?xs). 300 < t - lastStepTime initial"
    by blast
  then have "300 < 1000 - lastStepTime initial"
    unfolding ev by simp
  ultimately show ?thesis
    unfolding ev using ev by blast
qed

section \<open>Hysteresis of the cadence update\<close>















section \<open>The interval that the cadence estimator reads\<close>

text \<open>
  \<open>detectSteps\<close> stores the new timestamp in \<open>lastStepTime\<close> and only then calls
  \<open>calculateSpeed\<close>, which subtracts \<open>lastStepTime\<close> from a fresh reading of the clock.
  The interval it divides by is therefore the time between the two readings of the
  clock within one handler, not the time since the previous step.
\<close>

lemma timeElapsed_after_update:
  "timeElapsed clock (s\<lparr>steps := n, lastStepTime := now\<rparr>) =
     to_double (of_int (clock - now) / 1000)"
  by (simp add: timeElapsed_def)

lemma detectSteps_accepting:
  "js_gt magnitude (Num (21 / 2)) \<Longrightarrow> 300 < now - lastStepTime s \<Longrightarrow>
   detectSteps w now clock magnitude s =
     calculateSpeed w clock (s\<lparr>steps := steps s + 1, lastStepTime := now\<rparr>)"
  by (simp add: detectSteps_unfold Let_def)

text \<open>
  C1 on the code.  Two strong samples are accepted 500 ms apart, at 1000 and at 1500,
  and the clock does not advance between the two readings of a handler.  The
  specification expects a BPM of 120 and a speed of 1.4; the code computes an elapsed time of 0, an
  infinite speed and a BPM of 180.  Intervals of 2000 ms and of 400 ms end the same way,
  and a clock that advances by 1 ms between the two readings gives a speed of 700 and
  again a BPM of 180.
\<close>

theorem cadence_ignores_the_step_interval:
  "steps (detectSteps
      \<lparr>initOk = True, fetchOk = True, decodeOk = True, audioCtorOk = True, playOk = True\<rparr>
      1500 1500 (Num 11)
      (detectSteps
        \<lparr>initOk = True, fetchOk = True, decodeOk = True, audioCtorOk = True, playOk = True\<rparr>
        1000 1000 (Num 11) initial)) = 2
   \<and> speed (detectSteps
      \<lparr>initOk = True, fetchOk = True, decodeOk = True, audioCtorOk = True, playOk = True\<rparr>
      1500 1500 (Num 11)
      (detectSteps
        \<lparr>initOk = True, fetchOk = True, decodeOk = True, audioCtorOk = True, playOk = True\<rparr>
        1000 1000 (Num 11) initial)) = PosInf
   \<and> currentBPM (detectSteps
      \<lparr>initOk = True, fetchOk = True, decodeOk = True, audioCtorOk = True, playOk = True\<rparr>
      1500 1500 (Num 11)
      (detectSteps
        \<lparr>initOk = True, fetchOk = True, decodeOk = True, audioCtorOk = True, playOk = True\<rparr>
        1000 1000 (Num 11) initial)) = Num 180
   \<and> currentBPM (detectSteps
      \<lparr>initOk = True, fetchOk = True, decodeOk = True, audioCtorOk = True, playOk = True\<rparr>
      3000 3000 (Num 11)
      (detectSteps
        \<lparr>initOk = True, fetchOk = True, decodeOk = True, audioCtorOk = True, playOk = True\<rparr>
        1000 1000 (Num 11) initial)) = Num 180
   \<and> currentBPM (detectSteps
      \<lparr>initOk = True, fetchOk = True, decodeOk = True, audioCtorOk = True, playOk = True\<rparr>
      1400 1400 (Num 11)
      (detectSteps
        \<lparr>initOk = True, fetchOk = True, decodeOk = True, audioCtorOk = True, playOk = True\<rparr>
        1000 1000 (Num 11) initial)) = Num 180
   \<and> speed (detectSteps
      \<lparr>initOk = True, fetchOk = True, decodeOk = True, audioCtorOk = True, playOk = True\<rparr>
      1500 1501 (Num 11)
      (detectSteps
        \<lparr>initOk = True, fetchOk = True, decodeOk = True, audioCtorOk = True, playOk = True\<rparr>
        1000 1000 (Num 11) initial)) = Num 700
   \<and> currentBPM (detectSteps
      \<lparr>initOk = True, fetchOk = True, decodeOk = True, audioCtorOk = True, playOk = True\<rparr>
      1500 1501 (Num 11)
      (detectSteps
        \<lparr>initOk = True, fetchOk = True, decodeOk = True, audioCtorOk = True, playOk = True\<rparr>
        1000 1000 (Num 11) initial)) = Num 180"
  by (simp add: page_eval initial_def lit_7_10 double_eval)

text \<open>
  C2 on the code.  In the same run, the state in which \<open>calculateSpeed\<close> divides already
  holds the new timestamp: the elapsed time is 0 and the step rate is infinite.
\<close>

theorem elapsed_time_is_zero_at_the_division:
  "detectSteps
      \<lparr>initOk = True, fetchOk = True, decodeOk = True, audioCtorOk = True, playOk = True\<rparr>
      1500 1500 (Num 11) (initial\<lparr>steps := 1, lastStepTime := 1000\<rparr>)
     = calculateSpeed
        \<lparr>initOk = True, fetchOk = True, decodeOk = True, audioCtorOk = True, playOk = True\<rparr>
        1500 (initial\<lparr>steps := 2, lastStepTime := 1500\<rparr>)
   \<and> detectSteps
      \<lparr>initOk = True, fetchOk = True, decodeOk = True, audioCtorOk = True, playOk = True\<rparr>
      1000 1000 (Num 11) initial = initial\<lparr>steps := 1, lastStepTime := 1000\<rparr>
   \<and> timeElapsed 1500 (initial\<lparr>steps := 2, lastStepTime := 1500\<rparr>) = Num 0
   \<and> stepRate 1500 (initial\<lparr>steps := 2, lastStepTime := 1500\<rparr>) = PosInf"
proof -
  let ?w = "\<lparr>initOk = True, fetchOk = True, decodeOk = True, audioCtorOk = True, playOk = True\<rparr>"
  have first: "detectSteps ?w 1000 1000 (Num 11) initial = initial\<lparr>steps := 1, lastStepTime := 1000\<rparr>"
    by (simp add: detectSteps_unfold calculateSpeed_unfold js_gt_def initial_def Let_def)
  have second: "detectSteps ?w 1500 1500 (Num 11) (initial\<lparr>steps := 1, lastStepTime := 1000\<rparr>)
     = calculateSpeed ?w 1500 (initial\<lparr>steps := 2, lastStepTime := 1500\<rparr>)"
    by (simp add: detectSteps_unfold js_gt_def Let_def numeral_2_eq_2)
  have zero: "timeElapsed 1500 (initial\<lparr>steps := 2, lastStepTime := 1500\<rparr>) = Num 0"
    by (simp add: timeElapsed_def)
  then have "stepRate 1500 (initial\<lparr>steps := 2, lastStepTime := 1500\<rparr>) = PosInf"
    by (simp add: stepRate_def)
  with first second zero show ?thesis by simp
qed

section \<open>The demo generator\<close>

lemma demoTick_outputs:
  "fst (demoTick ds) = demoStep (fst ds)"
  "speed (snd (demoTick ds)) = demoValue (fst (demoTick ds))"
  "currentBPM (snd (demoTick ds)) =
     Math_round (js_add (Num 80) (js_mul (demoValue (fst (demoTick ds))) (Num 40)))"
  by (simp_all add: demoTick_def Let_def)

lemma demoRun_closure:
  "fst (demoRun n (startDemoMode s)) = (demoStep ^^ n) \<lparr>demoValue = Num (1 / 2), increasing = True\<rparr>"
  by (induction n) (simp_all add: startDemoMode_def demoTick_outputs)

lemma demoTrace_nth: "i < n \<Longrightarrow> demoTrace n d ! i = (demoStep ^^ Suc i) d"
proof (induction n arbitrary: d i)
  case 0
  then show ?case by simp
next
  case (Suc n)
  show ?case
  proof (cases i)
    case 0
    then show ?thesis by simp
  next
    case (Suc j)
    with Suc.prems have "j < n" by simp
    from Suc.IH [OF this, of "demoStep d"] Suc show ?thesis
      by (simp add: funpow_swap1)
  qed
qed

lemma demoTrace_length: "length (demoTrace n d) = n"
  by (induction n arbitrary: d) simp_all

text \<open>
  The first 54 ticks, in doubles.  The value climbs from 0.55; the 25th tick stands at
  1.750000000000001, the 26th at 1.8000000000000012, the first value above 1.8, and turns;
  the 52nd stands at 0.5, which is not below 0.5, so the 53rd steps down to 0.45 and
  turns; the 54th is back at 0.5 and climbing, where the generator started.
\<close>

lemma demoTrace_54:
  "demoTrace 54 \<lparr>demoValue = Num (1 / 2), increasing = True\<rparr> =
    [     \<lparr>demoValue = Num (2476979795053773 / 2 ^ 52), increasing = True\<rparr>,
     \<lparr>demoValue = Num (1351079888211149 / 2 ^ 51), increasing = True\<rparr>,
     \<lparr>demoValue = Num (2927339757790823 / 2 ^ 52), increasing = True\<rparr>,
     \<lparr>demoValue = Num (788129934789837 / 2 ^ 50), increasing = True\<rparr>,
     \<lparr>demoValue = Num (3377699720527873 / 2 ^ 52), increasing = True\<rparr>,
     \<lparr>demoValue = Num (1801439850948199 / 2 ^ 51), increasing = True\<rparr>,
     \<lparr>demoValue = Num (3828059683264923 / 2 ^ 52), increasing = True\<rparr>,
     \<lparr>demoValue = Num (506654958079181 / 2 ^ 49), increasing = True\<rparr>,
     \<lparr>demoValue = Num (4278419646001973 / 2 ^ 52), increasing = True\<rparr>,
     \<lparr>demoValue = Num (2251799813685249 / 2 ^ 51), increasing = True\<rparr>,
     \<lparr>demoValue = Num (4728779608739023 / 2 ^ 52), increasing = True\<rparr>,
     \<lparr>demoValue = Num (1238489897526887 / 2 ^ 50), increasing = True\<rparr>,
     \<lparr>demoValue = Num (5179139571476073 / 2 ^ 52), increasing = True\<rparr>,
     \<lparr>demoValue = Num (2702159776422299 / 2 ^ 51), increasing = True\<rparr>,
     \<lparr>demoValue = Num (5629499534213123 / 2 ^ 52), increasing = True\<rparr>,
     \<lparr>demoValue = Num (365917469723853 / 2 ^ 48), increasing = True\<rparr>,
     \<lparr>demoValue = Num (6079859496950173 / 2 ^ 52), increasing = True\<rparr>,
     \<lparr>demoValue = Num (3152519739159349 / 2 ^ 51), increasing = True\<rparr>,
     \<lparr>demoValue = Num (6530219459687223 / 2 ^ 52), increasing = True\<rparr>,
     \<lparr>demoValue = Num (1688849860263937 / 2 ^ 50), increasing = True\<rparr>,
     \<lparr>demoValue = Num (6980579422424273 / 2 ^ 52), increasing = True\<rparr>,
     \<lparr>demoValue = Num (3602879701896399 / 2 ^ 51), increasing = True\<rparr>,
     \<lparr>demoValue = Num (7430939385161323 / 2 ^ 52), increasing = True\<rparr>,
     \<lparr>demoValue = Num (957014920816231 / 2 ^ 49), increasing = True\<rparr>,
     \<lparr>demoValue = Num (7881299347898373 / 2 ^ 52), increasing = True\<rparr>,
     \<lparr>demoValue = Num (4053239664633449 / 2 ^ 51), increasing = False\<rparr>,
     \<lparr>demoValue = Num (7881299347898373 / 2 ^ 52), increasing = False\<rparr>,
     \<lparr>demoValue = Num (957014920816231 / 2 ^ 49), increasing = False\<rparr>,
     \<lparr>demoValue = Num (7430939385161323 / 2 ^ 52), increasing = False\<rparr>,
     \<lparr>demoValue = Num (3602879701896399 / 2 ^ 51), increasing = False\<rparr>,
     \<lparr>demoValue = Num (6980579422424273 / 2 ^ 52), increasing = False\<rparr>,
     \<lparr>demoValue = Num (1688849860263937 / 2 ^ 50), increasing = False\<rparr>,
     \<lparr>demoValue = Num (6530219459687223 / 2 ^ 52), increasing = False\<rparr>,
     \<lparr>demoValue = Num (3152519739159349 / 2 ^ 51), increasing = False\<rparr>,
     \<lparr>demoValue = Num (6079859496950173 / 2 ^ 52), increasing = False\<rparr>,
     \<lparr>demoValue = Num (365917469723853 / 2 ^ 48), increasing = False\<rparr>,
     \<lparr>demoValue = Num (5629499534213123 / 2 ^ 52), increasing = False\<rparr>,
     \<lparr>demoValue = Num (2702159776422299 / 2 ^ 51), increasing = False\<rparr>,
     \<lparr>demoValue = Num (5179139571476073 / 2 ^ 52), increasing = False\<rparr>,
     \<lparr>demoValue = Num (1238489897526887 / 2 ^ 50), increasing = False\<rparr>,
     \<lparr>demoValue = Num (4728779608739023 / 2 ^ 52), increasing = False\<rparr>,
     \<lparr>demoValue = Num (2251799813685249 / 2 ^ 51), increasing = False\<rparr>,
     \<lparr>demoValue = Num (4278419646001973 / 2 ^ 52), increasing = False\<rparr>,
     \<lparr>demoValue = Num (506654958079181 / 2 ^ 49), increasing = False\<rparr>,
     \<lparr>demoValue = Num (3828059683264923 / 2 ^ 52), increasing = False\<rparr>,
     \<lparr>demoValue = Num (1801439850948199 / 2 ^ 51), increasing = False\<rparr>,
     \<lparr>demoValue = Num (3377699720527873 / 2 ^ 52), increasing = False\<rparr>,
     \<lparr>demoValue = Num (788129934789837 / 2 ^ 50), increasing = False\<rparr>,
     \<lparr>demoValue = Num (2927339757790823 / 2 ^ 52), increasing = False\<rparr>,
     \<lparr>demoValue = Num (1351079888211149 / 2 ^ 51), increasing = False\<rparr>,
     \<lparr>demoValue = Num (2476979795053773 / 2 ^ 52), increasing = False\<rparr>,
     \<lparr>demoValue = Num (1 / 2), increasing = False\<rparr>,
     \<lparr>demoValue = Num (8106479329266893 / 2 ^ 54), increasing = True\<rparr>,
     \<lparr>demoValue = Num (1 / 2), increasing = True\<rparr>]"
  by (simp add: eval_nat_numeral demoStep_def js_sub_def js_gt_def Let_def lit_1_20 lit_9_5
      double_eval)

lemma demo_ticks_26_53:
  "(demoStep ^^ 26) \<lparr>demoValue = Num (1 / 2), increasing = True\<rparr>
     = \<lparr>demoValue = Num (4053239664633449 / 2 ^ 51), increasing = False\<rparr>"
  "(demoStep ^^ 27) \<lparr>demoValue = Num (1 / 2), increasing = True\<rparr>
     = \<lparr>demoValue = Num (7881299347898373 / 2 ^ 52), increasing = False\<rparr>"
  "(demoStep ^^ 52) \<lparr>demoValue = Num (1 / 2), increasing = True\<rparr>
     = \<lparr>demoValue = Num (1 / 2), increasing = False\<rparr>"
  "(demoStep ^^ 53) \<lparr>demoValue = Num (1 / 2), increasing = True\<rparr>
     = \<lparr>demoValue = Num (8106479329266893 / 2 ^ 54), increasing = True\<rparr>"
  "(demoStep ^^ 54) \<lparr>demoValue = Num (1 / 2), increasing = True\<rparr>
     = \<lparr>demoValue = Num (1 / 2), increasing = True\<rparr>"
proof -
  let ?d = "\<lparr>demoValue = Num (1 / 2), increasing = True\<rparr>"
  have "demoTrace 54 ?d ! 25 = (demoStep ^^ Suc 25) ?d" "demoTrace 54 ?d ! 26 = (demoStep ^^ Suc 26) ?d"
    "demoTrace 54 ?d ! 51 = (demoStep ^^ Suc 51) ?d" "demoTrace 54 ?d ! 52 = (demoStep ^^ Suc 52) ?d"
    "demoTrace 54 ?d ! 53 = (demoStep ^^ Suc 53) ?d"
    by (simp_all only: demoTrace_nth [of _ 54 ?d, OF _] numeral_less_iff Num.less_num_simps
        Num.le_num_simps)
  then show "(demoStep ^^ 26) ?d = \<lparr>demoValue = Num (4053239664633449 / 2 ^ 51), increasing = False\<rparr>"
    "(demoStep ^^ 27) ?d = \<lparr>demoValue = Num (7881299347898373 / 2 ^ 52), increasing = False\<rparr>"
    "(demoStep ^^ 52) ?d = \<lparr>demoValue = Num (1 / 2), increasing = False\<rparr>"
    "(demoStep ^^ 53) ?d = \<lparr>demoValue = Num (8106479329266893 / 2 ^ 54), increasing = True\<rparr>"
    "(demoStep ^^ 54) ?d = \<lparr>demoValue = Num (1 / 2), increasing = True\<rparr>"
    unfolding demoTrace_54 by (simp_all add: eval_nat_numeral del: funpow.simps)
qed

lemma demoTrace_54_band:
  "list_all inDemoBand (demoTrace 54 \<lparr>demoValue = Num (1 / 2), increasing = True\<rparr>)"
  unfolding demoTrace_54 by (simp add: inDemoBand_def)

lemma demo_period:
  "(demoStep ^^ (n + 54)) \<lparr>demoValue = Num (1 / 2), increasing = True\<rparr>
     = (demoStep ^^ n) \<lparr>demoValue = Num (1 / 2), increasing = True\<rparr>"
  by (simp only: funpow_add o_apply demo_ticks_26_53(5))

lemma demo_mod_period:
  "(demoStep ^^ n) \<lparr>demoValue = Num (1 / 2), increasing = True\<rparr>
     = (demoStep ^^ (n mod 54)) \<lparr>demoValue = Num (1 / 2), increasing = True\<rparr>"
proof (induction n rule: less_induct)
  case (less n)
  show ?case
  proof (cases "n < 54")
    case True
    then show ?thesis by simp
  next
    case False
    then have n: "n = (n - 54) + 54" by simp
    have "(demoStep ^^ n) \<lparr>demoValue = Num (1 / 2), increasing = True\<rparr>
        = (demoStep ^^ (n - 54)) \<lparr>demoValue = Num (1 / 2), increasing = True\<rparr>"
      using demo_period [of "n - 54"] n by simp
    also have "\<dots> = (demoStep ^^ ((n - 54) mod 54)) \<lparr>demoValue = Num (1 / 2), increasing = True\<rparr>"
      using False by (intro less.IH) simp
    also have "(n - 54) mod 54 = n mod 54"
      using False by (simp add: le_mod_geq)
    finally show ?thesis .
  qed
qed

lemma demo_band:
  "inDemoBand ((demoStep ^^ n) \<lparr>demoValue = Num (1 / 2), increasing = True\<rparr>)"
proof -
  let ?d = "\<lparr>demoValue = Num (1 / 2), increasing = True\<rparr>"
  show ?thesis
  proof (cases "n mod 54")
    case 0
    then have "(demoStep ^^ n) ?d = ?d"
      using demo_mod_period [of n] by simp
    then show ?thesis by (simp add: inDemoBand_def)
  next
    case (Suc i)
    have "n mod 54 < 54" by simp
    with Suc have i: "i < 54" by simp
    have "(demoStep ^^ n) ?d = (demoStep ^^ Suc i) ?d"
      using demo_mod_period [of n] Suc by simp
    also have "\<dots> = demoTrace 54 ?d ! i"
      using demoTrace_nth [OF i, of ?d] by simp
    finally have "(demoStep ^^ n) ?d \<in> set (demoTrace 54 ?d)"
      using i by (simp add: demoTrace_length)
    with demoTrace_54_band show ?thesis
      by (simp add: list_all_iff)
  qed
qed

lemma inDemoBand_bounds:
  "inDemoBand d \<Longrightarrow>
   \<exists>v. demoValue d = Num v \<and> 8106479329266893 / 2 ^ 54 \<le> v \<and> v \<le> 4053239664633449 / 2 ^ 51"
  by (cases "demoValue d") (simp_all add: inDemoBand_def)

text \<open>
  C10, as the specification has it, fails at both bounds.  The 52nd tick after the start
  stands at 0.5 on the way down; 0.5 is not below 0.5, so the 53rd tick steps down once
  more, to 0.45, below the stated lower bound.  And the sums of the way up carry their
  rounding: the 26th tick stands at 1.8000000000000012, above the stated upper bound.
\<close>

theorem demo_speed_leaves_stated_bounds:
  "fst (demoRun 52 (startDemoMode initial)) = \<lparr>demoValue = Num (1 / 2), increasing = False\<rparr>
   \<and> speed (snd (demoRun 53 (startDemoMode initial))) = Num (8106479329266893 / 2 ^ 54)
   \<and> lit (9 / 20) = Num (8106479329266893 / 2 ^ 54)
   \<and> js_lt (Num (8106479329266893 / 2 ^ 54)) (lit (1 / 2))
   \<and> speed (snd (demoRun 26 (startDemoMode initial))) = Num (4053239664633449 / 2 ^ 51)
   \<and> js_gt (Num (4053239664633449 / 2 ^ 51)) (lit (9 / 5))"
proof -
  have "speed (snd (demoRun 53 (startDemoMode initial)))
      = demoValue (fst (demoRun 53 (startDemoMode initial)))"
    "speed (snd (demoRun 26 (startDemoMode initial)))
      = demoValue (fst (demoRun 26 (startDemoMode initial)))"
    by (simp_all add: eval_nat_numeral demoTick_outputs(2) del: demoRun.simps(1))
  moreover have "lit (1 / 2) = Num (1 / 2)"
    by (simp add: lit_def double_eval)
  ultimately show ?thesis
    by (simp add: demoRun_closure demo_ticks_26_53 lit_9_20 lit_9_5 js_gt_def
        del: demoRun.simps funpow.simps)
qed

text \<open>
  C10, amended.  Once demo mode has started, every tick moves the value by 0.05, up
  until a tick finds it above 1.8 and down until a tick finds it below 0.5, and writes it
  to \<open>speed\<close> and \<open>round(80 + speed * 40)\<close> to \<open>currentBPM\<close>.  The direction turns only
  after a bound has been crossed, and the sums and differences are rounded to doubles,
  so after every tick the speed lies between the double 0.45 and the double
  1.8000000000000012; both are met, at the 53rd and at the 26th tick, and the generator
  repeats itself every 54 ticks.
\<close>

theorem demo_speed_stays_in_band:
  "(0 < n \<longrightarrow>
      (\<exists>v. speed (snd (demoRun n (startDemoMode s))) = Num v
          \<and> 8106479329266893 / 2 ^ 54 \<le> v \<and> v \<le> 4053239664633449 / 2 ^ 51)
    \<and> speed (snd (demoRun n (startDemoMode s))) = demoValue (fst (demoRun n (startDemoMode s)))
    \<and> currentBPM (snd (demoRun n (startDemoMode s))) =
        Math_round (js_add (Num 80) (js_mul (speed (snd (demoRun n (startDemoMode s)))) (Num 40))))
   \<and> speed (snd (demoRun 53 (startDemoMode s))) = Num (8106479329266893 / 2 ^ 54)
   \<and> speed (snd (demoRun 26 (startDemoMode s))) = Num (4053239664633449 / 2 ^ 51)
   \<and> fst (demoRun (n + 54) (startDemoMode s)) = fst (demoRun n (startDemoMode s))
   \<and> demoValue (fst (demoTick (d, s'))) =
       (if increasing d then js_add (demoValue d) (lit (1 / 20))
        else js_sub (demoValue d) (lit (1 / 20)))
   \<and> increasing (fst (demoTick (d, s'))) =
       (if increasing d then \<not> js_gt (demoValue (fst (demoTick (d, s')))) (lit (9 / 5))
        else js_lt (demoValue (fst (demoTick (d, s')))) (Num (1 / 2)))"
proof -
  have outputs: "speed (snd (demoRun (Suc m) (startDemoMode s)))
        = demoValue (fst (demoRun (Suc m) (startDemoMode s)))"
    "currentBPM (snd (demoRun (Suc m) (startDemoMode s))) =
        Math_round (js_add (Num 80)
          (js_mul (demoValue (fst (demoRun (Suc m) (startDemoMode s)))) (Num 40)))" for m
    by (simp_all add: demoTick_outputs)
  have run: "0 < n \<longrightarrow>
      (\<exists>v. speed (snd (demoRun n (startDemoMode s))) = Num v
          \<and> 8106479329266893 / 2 ^ 54 \<le> v \<and> v \<le> 4053239664633449 / 2 ^ 51)
    \<and> speed (snd (demoRun n (startDemoMode s))) = demoValue (fst (demoRun n (startDemoMode s)))
    \<and> currentBPM (snd (demoRun n (startDemoMode s))) =
        Math_round (js_add (Num 80) (js_mul (speed (snd (demoRun n (startDemoMode s)))) (Num 40)))"
  proof
    assume "0 < n"
    then obtain m where n: "n = Suc m" by (cases n) auto
    have sp: "speed (snd (demoRun n (startDemoMode s))) = demoValue (fst (demoRun n (startDemoMode s)))"
      unfolding n by (rule outputs)
    have bpm: "currentBPM (snd (demoRun n (startDemoMode s))) =
        Math_round (js_add (Num 80) (js_mul (speed (snd (demoRun n (startDemoMode s)))) (Num 40)))"
      unfolding sp unfolding n by (rule outputs)
    have "inDemoBand (fst (demoRun n (startDemoMode s)))"
      unfolding demoRun_closure by (rule demo_band)
    from inDemoBand_bounds [OF this] sp
    have "\<exists>v. speed (snd (demoRun n (startDemoMode s))) = Num v
          \<and> 8106479329266893 / 2 ^ 54 \<le> v \<and> v \<le> 4053239664633449 / 2 ^ 51"
      by simp
    with sp bpm show "(\<exists>v. speed (snd (demoRun n (startDemoMode s))) = Num v
          \<and> 8106479329266893 / 2 ^ 54 \<le> v \<and> v \<le> 4053239664633449 / 2 ^ 51)
    \<and> speed (snd (demoRun n (startDemoMode s))) = demoValue (fst (demoRun n (startDemoMode s)))
    \<and> currentBPM (snd (demoRun n (startDemoMode s))) =
        Math_round (js_add (Num 80) (js_mul (speed (snd (demoRun n (startDemoMode s)))) (Num 40)))"
      by blast
  qed
  have "speed (snd (demoRun (Suc 52) (startDemoMode s))) = Num (8106479329266893 / 2 ^ 54)"
    unfolding outputs demoRun_closure using demo_ticks_26_53(4) by (simp del: funpow.simps)
  then have low: "speed (snd (demoRun 53 (startDemoMode s))) = Num (8106479329266893 / 2 ^ 54)"
    by (simp del: demoRun.simps)
  have "speed (snd (demoRun (Suc 25) (startDemoMode s))) = Num (4053239664633449 / 2 ^ 51)"
    unfolding outputs demoRun_closure using demo_ticks_26_53(1) by (simp del: funpow.simps)
  then have high: "speed (snd (demoRun 26 (startDemoMode s))) = Num (4053239664633449 / 2 ^ 51)"
    by (simp del: demoRun.simps)
  have period: "fst (demoRun (n + 54) (startDemoMode s)) = fst (demoRun n (startDemoMode s))"
    unfolding demoRun_closure by (rule demo_period)
  have tick: "demoValue (fst (demoTick (d, s'))) =
       (if increasing d then js_add (demoValue d) (lit (1 / 20))
        else js_sub (demoValue d) (lit (1 / 20)))"
    "increasing (fst (demoTick (d, s'))) =
       (if increasing d then \<not> js_gt (demoValue (fst (demoTick (d, s')))) (lit (9 / 5))
        else js_lt (demoValue (fst (demoTick (d, s')))) (Num (1 / 2)))"
    by (simp_all add: demoTick_def demoStep_def Let_def)
  show ?thesis
    by (intro conjI run low high period tick)
qed

text \<open>
  At a concrete tick: the 27th after the start stands at 1.750000000000001 on the way
  down, with a BPM of 150.
\<close>

theorem demo_speed_stays_in_band_witness:
  "(0 :: nat) < 27
   \<and> speed (snd (demoRun 27 (startDemoMode initial))) = Num (7881299347898373 / 2 ^ 52)
   \<and> currentBPM (snd (demoRun 27 (startDemoMode initial))) = Num 150
   \<and> (\<exists>v. speed (snd (demoRun 27 (startDemoMode initial))) = Num v
         \<and> 8106479329266893 / 2 ^ 54 \<le> v \<and> v \<le> 4053239664633449 / 2 ^ 51)
   \<and> fst (demoRun 27 (startDemoMode initial))
       = \<lparr>demoValue = Num (7881299347898373 / 2 ^ 52), increasing = False\<rparr>
   \<and> fst (demoTick (\<lparr>demoValue = Num (4053239664633449 / 2 ^ 51), increasing = False\<rparr>, initial))
       = \<lparr>demoValue = Num (7881299347898373 / 2 ^ 52), increasing = False\<rparr>"
proof -
  let ?d = "\<lparr>demoValue = Num (4053239664633449 / 2 ^ 51), increasing = False\<rparr>"
  have pos: "(0 :: nat) < 27" by simp
  have closure: "fst (demoRun 27 (startDemoMode initial))
       = \<lparr>demoValue = Num (7881299347898373 / 2 ^ 52), increasing = False\<rparr>"
    unfolding demoRun_closure by (rule demo_ticks_26_53(2))
  note at27 = demo_speed_stays_in_band [of 27 initial ?d initial]
  from at27 pos
  have sp: "speed (snd (demoRun 27 (startDemoMode initial)))
      = demoValue (fst (demoRun 27 (startDemoMode initial)))"
    and bpm: "currentBPM (snd (demoRun 27 (startDemoMode initial))) =
        Math_round (js_add (Num 80) (js_mul (speed (snd (demoRun 27 (startDemoMode initial)))) (Num 40)))"
    and band: "\<exists>v. speed (snd (demoRun 27 (startDemoMode initial))) = Num v
         \<and> 8106479329266893 / 2 ^ 54 \<le> v \<and> v \<le> 4053239664633449 / 2 ^ 51"
    by blast+
  have sp': "speed (snd (demoRun 27 (startDemoMode initial))) = Num (7881299347898373 / 2 ^ 52)"
    unfolding sp closure by simp
  have "js_add (Num 80) (js_mul (Num (7881299347898373 / 2 ^ 52)) (Num 40))
      = Num (2638827906662401 / 2 ^ 44)"
    by (simp add: double_eval)
  moreover have "\<lfloor>(2638827906662401 :: real) / 2 ^ 44 + 1 / 2\<rfloor> = 150"
    by (rule floor_unique) simp_all
  ultimately have bpm': "currentBPM (snd (demoRun 27 (startDemoMode initial))) = Num 150"
    unfolding bpm sp' by simp
  from at27
  have "demoValue (fst (demoTick (?d, initial))) =
       (if increasing ?d then js_add (demoValue ?d) (lit (1 / 20))
        else js_sub (demoValue ?d) (lit (1 / 20)))"
    and "increasing (fst (demoTick (?d, initial))) =
       (if increasing ?d then \<not> js_gt (demoValue (fst (demoTick (?d, initial)))) (lit (9 / 5))
        else js_lt (demoValue (fst (demoTick (?d, initial)))) (Num (1 / 2)))"
    by blast+
  then have "demoValue (fst (demoTick (?d, initial))) = Num (7881299347898373 / 2 ^ 52)"
    and "increasing (fst (demoTick (?d, initial))) = False"
    by (simp_all add: js_sub_def lit_1_20 double_eval)
  then have tick: "fst (demoTick (?d, initial))
       = \<lparr>demoValue = Num (7881299347898373 / 2 ^ 52), increasing = False\<rparr>"
    by (cases "fst (demoTick (?d, initial))") simp
  from pos sp' bpm' band closure tick show ?thesis
    by (intro conjI)
qed

end
